theory Spec2Isabelle
  imports Main "HOL-Library.Sublist"
begin

section \<open>Strings: the library calls behind the output name\<close>

text \<open>
  A Go string is a sequence of bytes, and so is an Isabelle \<open>string\<close>. The output name
  of \<open>Scriber.Process\<close> is
  \<^verbatim>\<open>strings.Replace(in.Name(), filepath.Ext(in.Name()), "."+in.OutputType(), 1)\<close>.
\<close>

type_synonym bytes = string

datatype goos = Unix | Windows

definition IsPathSeparator :: "goos \<Rightarrow> char \<Rightarrow> bool" where
  \<comment> \<open>\<open>os.IsPathSeparator\<close>: the slash, and on Windows the backslash (byte 0x5C) too.\<close>
  "IsPathSeparator os c =
     (case os of Unix \<Rightarrow> c = CHR ''/'' | Windows \<Rightarrow> c = CHR 0x5C \<or> c = CHR ''/'')"

fun Ext_loop :: "goos \<Rightarrow> string \<Rightarrow> nat \<Rightarrow> string" where
  \<comment> \<open>The loop of \<open>filepath.Ext\<close>,
      \<^verbatim>\<open>for i := len(path) - 1; i >= 0 && !os.IsPathSeparator(path[i]); i--\<close>
      with body \<^verbatim>\<open>if path[i] == '.' { return path[i:] }\<close>;
      the argument \<open>Suc i\<close> stands for the loop variable \<open>i\<close>, and \<open>0\<close> for \<open>i = -1\<close>.\<close>
  "Ext_loop os path 0 = []"
| "Ext_loop os path (Suc i) =
     (if IsPathSeparator os (path ! i) then []
      else if path ! i = CHR ''.'' then drop i path
      else Ext_loop os path i)"

definition Ext :: "goos \<Rightarrow> string \<Rightarrow> string" where
  "Ext os path = Ext_loop os path (length path)"

fun Index :: "string \<Rightarrow> string \<Rightarrow> nat option" where
  \<comment> \<open>\<open>strings.Index\<close>: the offset of the first instance of \<open>substr\<close> in \<open>s\<close>;
      \<open>None\<close> is Go's \<open>-1\<close>. The empty string is found at offset 0.\<close>
  "Index [] substr = (if substr = [] then Some 0 else None)"
| "Index (c # cs) substr =
     (if prefix substr (c # cs) then Some 0 else map_option Suc (Index cs substr))"

definition Replace1 :: "string \<Rightarrow> string \<Rightarrow> string \<Rightarrow> string" where
  \<comment> \<open>\<open>strings.Replace(s, old, new, 1)\<close>. The library returns \<open>s\<close> when \<open>old == new\<close>
      or when \<open>Count(s, old) == 0\<close>; otherwise its loop runs once, copying \<open>s[:j]\<close>,
      \<open>new\<close> and \<open>s[j+len(old):]\<close>, where \<open>j\<close> is \<open>Index(s, old)\<close>, and \<open>0\<close> for an
      empty \<open>old\<close> (which \<open>Count\<close> always finds, at least once).\<close>
  "Replace1 s old new =
     (if old = new then s
      else case Index s old of
             None \<Rightarrow> s
           | Some j \<Rightarrow> take j s @ new @ drop (j + length old) s)"

definition Output_Name :: "goos \<Rightarrow> string \<Rightarrow> string \<Rightarrow> string" where
  "Output_Name os name outputType = Replace1 name (Ext os name) (CHR ''.'' # outputType)"

definition replace_extension :: "goos \<Rightarrow> string \<Rightarrow> string \<Rightarrow> string" where
  \<comment> \<open>The specification's words, for comparison with \<open>Output_Name\<close>: the input name
      with its extension replaced by a dot and the output type (appended when the name
      has no extension).\<close>
  "replace_extension os name outputType =
     take (length name - length (Ext os name)) name @ CHR ''.'' # outputType"

section \<open>Data model\<close>

datatype error =
    ErrMsg string
  | ExitError int
  | Wrap string error  \<comment> \<open>\<^verbatim>\<open>fmt.Errorf("<prefix>%w", err)\<close>\<close>

datatype Context =
    RootCtx string
  | WithTimeout Context int  \<comment> \<open>parent and timeout in nanoseconds\<close>

definition Minute :: int where
  "Minute = 60 * 1000000000"

record Output =
  Name :: string
  Text :: bytes

record TranscribeAudioInput =
  ta_Name :: string
  ta_Language :: string
  ta_Format :: string
  ta_Data :: bytes

datatype stream = Unset | ToBuffer | OsStderr

record Cmd =
  Path :: string
  Args :: "string list"
  cmd_ctx :: "Context option"
  Stdin :: "bytes option"
  Stdout :: stream
  Stderr :: stream

datatype run_result =
    StartFailed error
  | Exited int bytes  \<comment> \<open>exit code and what the process wrote to its standard output\<close>

datatype level = Info | Error

datatype event =
    EvLog "string list" level string "(string \<times> string) list"
  | EvData nat
  | EvReadAll nat
  | EvClose nat
  | EvRun Cmd
  | EvWithTimeout Context int
  | EvCancel Context
  | EvTranscribe Context TranscribeAudioInput
  | EvSend nat Output
  | EvRecv nat
  | EvCloseChan nat

record reader =
  rd_data :: bytes  \<comment> \<open>the bytes not read yet\<close>
  rd_err :: "error option"  \<comment> \<open>the error the stream ends with; \<open>None\<close> is a clean EOF\<close>
  rd_closed :: nat  \<comment> \<open>how many times \<open>Close\<close> was called on it\<close>

record chan =
  ch_cap :: nat
  ch_buf :: "Output list"
  ch_closed :: bool

text \<open>
  An \<open>Input\<close> is an interface. Its \<open>Data\<close> method may hand out the same reader on every
  call (as the application's \<open>scriberInput\<close> does) or another one each time: \<open>Data inp k\<close>
  is the reader that invocation number \<open>k\<close> returns.
\<close>

record Input =
  in_Name :: string
  in_OutputType :: string
  in_Language :: string
  Data :: "nat \<Rightarrow> nat"

record Scriber =
  logger :: "string list"  \<comment> \<open>the logger's groups\<close>
  whisperClient :: "Context \<Rightarrow> TranscribeAudioInput \<Rightarrow> error + bytes"
  resultsCh :: nat  \<comment> \<open>the address of the channel\<close>

record world =
  readers :: "nat \<Rightarrow> reader"
  data_calls :: nat  \<comment> \<open>invocations of \<open>Data\<close> so far\<close>
  chans :: "nat \<Rightarrow> chan option"  \<comment> \<open>the channels allocated so far\<close>
  chan_next :: nat  \<comment> \<open>the address the next channel gets\<close>
  os_exec :: "Cmd \<Rightarrow> run_result"  \<comment> \<open>what running a command does on this host\<close>
  host_os :: goos
  trace :: "event list"  \<comment> \<open>what has happened, oldest first\<close>

section \<open>Primitive operations\<close>

definition emit :: "event \<Rightarrow> world \<Rightarrow> world" where
  "emit e w = w\<lparr>trace := trace w @ [e]\<rparr>"

definition log_Info :: "Scriber \<Rightarrow> string \<Rightarrow> string \<Rightarrow> string \<Rightarrow> world \<Rightarrow> world" where
  "log_Info s msg k v w = emit (EvLog (logger s) Info msg [(k, v)]) w"

definition call_Data :: "Input \<Rightarrow> world \<Rightarrow> nat \<times> world" where
  "call_Data inp w =
     (let r = Data inp (data_calls w)
      in (r, emit (EvData r) (w\<lparr>data_calls := Suc (data_calls w)\<rparr>)))"

definition ReadAll :: "nat \<Rightarrow> world \<Rightarrow> (error + bytes) \<times> world" where
  \<comment> \<open>\<open>io.ReadAll\<close> drains the reader and reports its error, if it ends with one.\<close>
  "ReadAll r w =
     (let rd = readers w r
      in ((case rd_err rd of None \<Rightarrow> Inr (rd_data rd) | Some e \<Rightarrow> Inl e),
          emit (EvReadAll r) (w\<lparr>readers := (readers w)(r := rd\<lparr>rd_data := []\<rparr>)\<rparr>)))"

definition Close :: "nat \<Rightarrow> world \<Rightarrow> world" where
  "Close r w =
     emit (EvClose r)
       (w\<lparr>readers := (readers w)(r := (readers w r)\<lparr>rd_closed := Suc (rd_closed (readers w r))\<rparr>)\<rparr>)"

definition Command :: "string \<Rightarrow> string list \<Rightarrow> Cmd" where
  \<comment> \<open>\<open>exec.Command\<close>: no context, the name as \<open>Args[0]\<close>, no streams set.\<close>
  "Command name arg =
     \<lparr>Path = name, Args = name # arg, cmd_ctx = None,
      Stdin = None, Stdout = Unset, Stderr = Unset\<rparr>"

definition exit_status :: "run_result \<Rightarrow> error + bytes" where
  \<comment> \<open>What \<open>cmd.Run\<close> returns: an error when the process cannot start or exits with
      a code other than 0; otherwise the bytes it wrote to \<open>Stdout\<close>.\<close>
  "exit_status res =
     (case res of
        StartFailed e \<Rightarrow> Inl e
      | Exited code out \<Rightarrow> if code = 0 then Inr out else Inl (ExitError code))"

definition Run :: "Cmd \<Rightarrow> world \<Rightarrow> (error + bytes) \<times> world" where
  "Run cmd w = (exit_status (os_exec w cmd), emit (EvRun cmd) w)"

definition cancel :: "Context \<Rightarrow> world \<Rightarrow> world" where
  "cancel c w = emit (EvCancel c) w"

definition TranscribeAudio ::
  "Scriber \<Rightarrow> Context \<Rightarrow> TranscribeAudioInput \<Rightarrow> world \<Rightarrow> (error + bytes) \<times> world" where
  "TranscribeAudio s c inp w = (whisperClient s c inp, emit (EvTranscribe c inp) w)"

datatype send_result = Sent chan | SendBlocks | SendPanics

definition chan_send :: "chan option \<Rightarrow> Output \<Rightarrow> send_result" where
  \<comment> \<open>A send on a nil channel or on a full one blocks, a send on a closed one panics.\<close>
  "chan_send c v =
     (case c of
        None \<Rightarrow> SendBlocks
      | Some ch \<Rightarrow>
          if ch_closed ch then SendPanics
          else if length (ch_buf ch) < ch_cap ch then Sent (ch\<lparr>ch_buf := ch_buf ch @ [v]\<rparr>)
          else SendBlocks)"

definition make_chan :: "nat \<Rightarrow> world \<Rightarrow> nat \<times> world" where
  \<comment> \<open>\<open>make(chan Output, n)\<close>: a new, empty, open channel at the next address.\<close>
  "make_chan n w =
     (let a = chan_next w
      in (a, w\<lparr>chans := (chans w)(a \<mapsto> \<lparr>ch_cap = n, ch_buf = [], ch_closed = False\<rparr>),
              chan_next := Suc a\<rparr>))"

section \<open>The scriber package\<close>

definition sampleRate :: string where
  "sampleRate = ''5200''"

definition New ::
  "string list \<Rightarrow> (Context \<Rightarrow> TranscribeAudioInput \<Rightarrow> error + bytes) \<Rightarrow> world \<Rightarrow> Scriber \<times> world" where
  "New lg whisperCli w =
     (let (a, w') = make_chan 10 w
      in (\<lparr>logger = lg @ [''scriber''], whisperClient = whisperCli, resultsCh = a\<rparr>, w'))"

datatype outcome =
    Returned "error option"  \<comment> \<open>\<open>None\<close> is a nil error\<close>
  | Blocked Output  \<comment> \<open>parked in the channel send, with the value to send\<close>
  | Panicked string

definition ffmpeg_Cmd :: "bytes \<Rightarrow> Cmd" where
  \<comment> \<open>Lines 59 to 74: the command and its three streams.\<close>
  "ffmpeg_Cmd data =
     (Command ''ffmpeg''
        [''-y'',
         ''-i'', ''pipe:0'',
         ''-vn'',
         ''-acodec'', ''pcm_s16le'',
         ''-ar'', sampleRate,
         ''-ac'', ''2'',
         ''-b:a'', ''32k'',
         ''-f'', ''wav'',
         ''pipe:1''])
     \<lparr>Stdin := Some data, Stdout := ToBuffer, Stderr := OsStderr\<rparr>"

definition Process_send ::
  "Scriber \<Rightarrow> Input \<Rightarrow> Context \<Rightarrow> nat \<Rightarrow> Output \<Rightarrow> world \<Rightarrow> outcome \<times> world" where
  \<comment> \<open>Lines 96 to 106: the send, the last log line and, on the way out, the two
      deferred calls, last registered first. A send that blocks leaves the call parked
      here; it goes on from here once the channel has room.\<close>
  "Process_send s inp ctx' r out w =
     (case chan_send (chans w (resultsCh s)) out of
        SendBlocks \<Rightarrow> (Blocked out, w)
      | SendPanics \<Rightarrow> (Panicked ''send on closed channel'', Close r (cancel ctx' w))
      | Sent ch \<Rightarrow>
          (let w1 = emit (EvSend (resultsCh s) out) (w\<lparr>chans := (chans w)(resultsCh s \<mapsto> ch)\<rparr>);
               w2 = log_Info s ''Processing complete'' ''file'' (in_Name inp) w1
           in (Returned None, Close r (cancel ctx' w2))))"

definition Process :: "Scriber \<Rightarrow> Context \<Rightarrow> Input \<Rightarrow> world \<Rightarrow> outcome \<times> world" where
  "Process s ctx inp w0 =
     (let w1 = log_Info s ''Processing file'' ''name'' (in_Name inp) w0;
          (r0, w2) = call_Data inp w1;
          (rd, w3) = ReadAll r0 w2
      in case rd of
           Inl err \<Rightarrow> (Returned (Some (Wrap ''reading input: '' err)), w3)
         | Inr data \<Rightarrow>
             \<comment> \<open>\<^verbatim>\<open>defer in.Data().Close()\<close> calls \<open>Data\<close> now and \<open>Close\<close> on the way out\<close>
             (let (r1, w4) = call_Data inp w3;
                  cmd = ffmpeg_Cmd data;
                  w5 = log_Info s ''Running ffmpeg'' ''file'' (in_Name inp) w4;
                  (ran, w6) = Run cmd w5
              in case ran of
                   Inl err \<Rightarrow> (Returned (Some (Wrap ''ffmpeg failed: '' err)), Close r1 w6)
                 | Inr outBuf \<Rightarrow>
                     (let ctx' = WithTimeout ctx (5 * Minute);
                          w7 = emit (EvWithTimeout ctx (5 * Minute)) w6;
                          w8 = log_Info s ''Transcribing audio'' ''file'' (in_Name inp) w7;
                          (tr, w9) =
                            TranscribeAudio s ctx'
                              \<lparr>ta_Name = in_Name inp, ta_Language = in_Language inp,
                               ta_Format = in_OutputType inp, ta_Data = outBuf\<rparr> w8
                      in case tr of
                           Inl err \<Rightarrow>
                             (Returned (Some (Wrap ''transcription failed: '' err)),
                              Close r1 (cancel ctx' w9))
                         | Inr text \<Rightarrow>
                             Process_send s inp ctx' r1
                               \<lparr>Name = Output_Name (host_os w9) (in_Name inp) (in_OutputType inp),
                                Text = text\<rparr> w9)))"

datatype chan_view = RecvOnly nat  \<comment> \<open>\<^verbatim>\<open><-chan Output\<close>: the channel at this address, to receive from\<close>

definition Collect_ch :: "Scriber \<Rightarrow> chan_view" where
  \<comment> \<open>The method \<open>Collect\<close>.\<close>
  "Collect_ch s = RecvOnly (resultsCh s)"

definition chan_recv :: "nat \<Rightarrow> world \<Rightarrow> Output option \<times> world" where
  \<comment> \<open>What a consumer does with the channel it got from \<open>Collect\<close>: take the oldest
      value, if there is one.\<close>
  "chan_recv a w =
     (case chans w a of
        None \<Rightarrow> (None, w)
      | Some ch \<Rightarrow>
          (case ch_buf ch of
             [] \<Rightarrow> (None, w)
           | v # vs \<Rightarrow> (Some v, emit (EvRecv a) (w\<lparr>chans := (chans w)(a \<mapsto> ch\<lparr>ch_buf := vs\<rparr>)\<rparr>))))"

section \<open>The main package\<close>

definition whisperAIModel :: string where
  "whisperAIModel = ''whisper-1''"

definition Getenv :: "(string \<Rightarrow> string option) \<Rightarrow> string \<Rightarrow> string" where
  \<comment> \<open>\<open>os.Getenv\<close>: the empty string for a variable that is not set.\<close>
  "Getenv env k = (case env k of None \<Rightarrow> [] | Some v \<Rightarrow> v)"

datatype main_outcome =
    Exit int world  \<comment> \<open>\<open>os.Exit\<close> with this code\<close>
  | AppRun Scriber world  \<comment> \<open>the application runs, with this scriber\<close>

definition main ::
  "(string \<Rightarrow> string option) \<Rightarrow>
   (string \<Rightarrow> string \<Rightarrow> Context \<Rightarrow> TranscribeAudioInput \<Rightarrow> error + bytes) \<Rightarrow>
   world \<Rightarrow> main_outcome" where
  \<comment> \<open>\<open>whisperclient_New key model\<close> stands for the client that \<open>whisperclient.New\<close>
      builds from the key and the model name.\<close>
  "main env whisperclient_New w =
     (let lg = [];
          openAIKey = Getenv env ''OPENAI_API_KEY''
      in if openAIKey = [] then
           Exit 1 (emit (EvLog lg Error ''OPENAI_API_KEY is required'' []) w)
         else
           (let (s, w') = New lg (whisperclient_New openAIKey whisperAIModel) w
            in AppRun s w'))"

section \<open>Observing a call\<close>

definition new_events :: "world \<Rightarrow> world \<Rightarrow> event list" where
  \<comment> \<open>What happened between an earlier world and a later one.\<close>
  "new_events w w' = drop (length (trace w)) (trace w')"

fun is_Run :: "event \<Rightarrow> bool" where
  "is_Run (EvRun cmd) = True"
| "is_Run e = False"

fun is_Transcribe :: "event \<Rightarrow> bool" where
  "is_Transcribe (EvTranscribe c i) = True"
| "is_Transcribe e = False"

fun is_Send :: "event \<Rightarrow> bool" where
  "is_Send (EvSend a v) = True"
| "is_Send e = False"

fun on_reader :: "event \<Rightarrow> bool" where
  \<comment> \<open>The events of the input stream: \<open>Data\<close>, \<open>ReadAll\<close> and \<open>Close\<close>.\<close>
  "on_reader (EvData r) = True"
| "on_reader (EvReadAll r) = True"
| "on_reader (EvClose r) = True"
| "on_reader e = False"

fun on_deadline :: "event \<Rightarrow> bool" where
  \<comment> \<open>The events a timeout could bear on: the subprocess, the sub-context and the
      backend call.\<close>
  "on_deadline (EvRun cmd) = True"
| "on_deadline (EvWithTimeout c d) = True"
| "on_deadline (EvTranscribe c i) = True"
| "on_deadline e = False"

fun on_chan_drain :: "event \<Rightarrow> bool" where
  \<comment> \<open>A receive from a channel, or closing one.\<close>
  "on_chan_drain (EvRecv a) = True"
| "on_chan_drain (EvCloseChan a) = True"
| "on_chan_drain e = False"

definition has_room :: "world \<Rightarrow> nat \<Rightarrow> bool" where
  \<comment> \<open>The channel at this address is open and not full: a send goes through.\<close>
  "has_room w a =
     (case chans w a of
        None \<Rightarrow> False
      | Some ch \<Rightarrow> \<not> ch_closed ch \<and> length (ch_buf ch) < ch_cap ch)"

definition audio_input :: "Input \<Rightarrow> bytes \<Rightarrow> TranscribeAudioInput" where
  \<comment> \<open>The request of lines 86 to 91.\<close>
  "audio_input inp wav =
     \<lparr>ta_Name = in_Name inp, ta_Language = in_Language inp,
      ta_Format = in_OutputType inp, ta_Data = wav\<rparr>"

section \<open>Example worlds\<close>

definition good_reader :: reader where
  "good_reader = \<lparr>rd_data = ''media'', rd_err = None, rd_closed = 0\<rparr>"

definition bad_reader :: reader where
  "bad_reader = \<lparr>rd_data = ''med'', rd_err = Some (ErrMsg ''unexpected EOF''), rd_closed = 0\<rparr>"

definition empty_world :: "(nat \<Rightarrow> reader) \<Rightarrow> (Cmd \<Rightarrow> run_result) \<Rightarrow> world" where
  "empty_world rs ex =
     \<lparr>readers = rs, data_calls = 0, chans = (\<lambda>a. None), chan_next = 0,
      os_exec = ex, host_os = Unix, trace = []\<rparr>"

definition srt_backend :: "Context \<Rightarrow> TranscribeAudioInput \<Rightarrow> error + bytes" where
  "srt_backend c i = Inr ''1 hello''"

definition file_input :: "string \<Rightarrow> Input" where
  \<comment> \<open>As the application builds it: one reader, handed out by every call of \<open>Data\<close>.\<close>
  "file_input name =
     \<lparr>in_Name = name, in_OutputType = ''srt'', in_Language = ''en'', Data = (\<lambda>k. 0)\<rparr>"

definition fresh_input :: "string \<Rightarrow> Input" where
  \<comment> \<open>An input that opens another reader on every call of \<open>Data\<close>.\<close>
  "fresh_input name =
     \<lparr>in_Name = name, in_OutputType = ''srt'', in_Language = ''en'', Data = (\<lambda>k. k)\<rparr>"

definition ok_exec :: "Cmd \<Rightarrow> run_result" where
  "ok_exec cmd = Exited 0 ''RIFF''"

definition exits_with :: "int \<Rightarrow> Cmd \<Rightarrow> run_result" where
  "exits_with code cmd = Exited code []"

definition not_installed :: "Cmd \<Rightarrow> run_result" where
  "not_installed cmd = StartFailed (ErrMsg ''executable file not found'')"

definition readable :: "nat \<Rightarrow> reader" where
  "readable r = good_reader"

definition unreadable :: "nat \<Rightarrow> reader" where
  "unreadable r = bad_reader"

definition app_scriber :: Scriber where
  \<comment> \<open>The scriber that \<open>New\<close> builds in a world without channels.\<close>
  "app_scriber = fst (New [] srt_backend (empty_world readable ok_exec))"

definition app_world :: "(nat \<Rightarrow> reader) \<Rightarrow> (Cmd \<Rightarrow> run_result) \<Rightarrow> world" where
  \<comment> \<open>The world after that \<open>New\<close>, with these readers and this host.\<close>
  "app_world rs ex = snd (New [] srt_backend (empty_world rs ex))"

definition good_world :: world where
  "good_world = app_world readable ok_exec"

definition bad_world :: world where
  \<comment> \<open>Every input stream fails.\<close>
  "bad_world = app_world unreadable ok_exec"

definition exit_world :: "int \<Rightarrow> world" where
  \<comment> \<open>The transcoder exits with this code.\<close>
  "exit_world code = app_world readable (exits_with code)"

definition bare_world :: world where
  \<comment> \<open>The transcoder is not installed.\<close>
  "bare_world = app_world readable not_installed"

definition app_ctx :: Context where
  "app_ctx = RootCtx ''app''"

definition unset_env :: "string \<Rightarrow> string option" where
  "unset_env k = None"

definition client_for :: "string \<Rightarrow> string \<Rightarrow> Context \<Rightarrow> TranscribeAudioInput \<Rightarrow> error + bytes" where
  "client_for key model = srt_backend"

section \<open>The output name\<close>

lemma Index_Some_prefix: "Index s sub = Some j \<Longrightarrow> prefix sub (drop j s)"
  by (induction s arbitrary: j) (auto split: if_splits)

lemma Index_Some_first: "Index s sub = Some j \<Longrightarrow> i < j \<Longrightarrow> \<not> prefix sub (drop i s)"
proof (induction s arbitrary: i j)
  case Nil
  then show ?case by (simp split: if_splits)
next
  case (Cons c cs)
  show ?case
  proof (cases "prefix sub (c # cs)")
    case True
    with Cons.prems show ?thesis by simp
  next
    case False
    with Cons.prems obtain j' where j': "Index cs sub = Some j'" "j = Suc j'"
      by auto
    show ?thesis
    proof (cases i)
      case 0
      with False show ?thesis by simp
    next
      case (Suc i')
      with j' Cons.prems have "i' < j'" by simp
      with Cons.IH [OF j'(1)] Suc show ?thesis by simp
    qed
  qed
qed

lemma Index_occurs: "\<exists>j\<le>length p. Index (p @ sub @ t) sub = Some j"
proof (induction p)
  case Nil
  have "prefix sub (sub @ t)" by simp
  then show ?case by (cases "sub @ t") auto
next
  case (Cons c p)
  then obtain j where "j \<le> length p" "Index (p @ sub @ t) sub = Some j" by blast
  then show ?case by auto
qed

lemma Replace1_first:
  assumes "Index s old = Some j"
  shows "Replace1 s old new = take j s @ new @ drop (j + length old) s"
proof (cases "old = new")
  case True
  from assms have "prefix old (drop j s)" by (rule Index_Some_prefix)
  then obtain t where t: "drop j s = old @ t" by (auto simp: prefix_def)
  then have "drop (j + length old) s = t"
    by (metis add.commute append_eq_conv_conj drop_drop)
  with t True show ?thesis
    by (simp add: Replace1_def) (metis append_take_drop_id)
next
  case False
  with assms show ?thesis by (simp add: Replace1_def)
qed

lemma Ext_loop_cases:
  "Ext_loop os path n = [] \<or> (\<exists>i<n. Ext_loop os path n = drop i path \<and> path ! i = CHR ''.'')"
  by (induction n) (auto simp: less_Suc_eq)

lemma Ext_suffix: "suffix (Ext os path) path"
  using Ext_loop_cases [of os path "length path"]
  by (auto simp: Ext_def suffix_drop)

lemma Output_Name_final_occurrence:
  assumes "Ext os name = ext" and "Index name ext = Some (length name - length ext)"
  shows "Output_Name os name outputType = replace_extension os name outputType"
proof -
  have "length ext \<le> length name"
    using Ext_suffix [of os name] assms(1) by (auto dest: suffix_length_le)
  then have "drop (length name - length ext + length ext) name = []"
    by simp
  with Replace1_first [OF assms(2)] assms(1) show ?thesis
    by (simp add: Output_Name_def replace_extension_def)
qed

section \<open>The paths of a call\<close>

text \<open>
  A call of \<open>Process\<close> ends in one of six ways, decided by the input stream, the
  subprocess, the backend and the channel. For each, the outcome, the events of the call
  in order, the number of \<open>Data\<close> invocations, the channels and the \<open>Close\<close> counts.
\<close>

lemmas step_defs = Let_def call_Data_def ReadAll_def emit_def log_Info_def Run_def Close_def
  cancel_def TranscribeAudio_def Process_send_def chan_send_def new_events_def has_room_def
  audio_input_def

lemma Process_read_fails:
  assumes "r0 = Data inp (data_calls w)"
    and "rd_err (readers w r0) = Some e"
    and "w' = snd (Process s ctx inp w)"
  shows "fst (Process s ctx inp w) = Returned (Some (Wrap ''reading input: '' e))
    \<and> new_events w w' =
        [EvLog (logger s) Info ''Processing file'' [(''name'', in_Name inp)],
         EvData r0, EvReadAll r0]
    \<and> data_calls w' = Suc (data_calls w)
    \<and> chans w' = chans w
    \<and> (\<forall>r. rd_closed (readers w' r) = rd_closed (readers w r))"
  using assms by (simp add: Process_def step_defs)

lemma Process_transcode_fails:
  assumes "r0 = Data inp (data_calls w)" and "r1 = Data inp (Suc (data_calls w))"
    and "rd_err (readers w r0) = None"
    and "exit_status (os_exec w (ffmpeg_Cmd (rd_data (readers w r0)))) = Inl e"
    and "w' = snd (Process s ctx inp w)"
  shows "fst (Process s ctx inp w) = Returned (Some (Wrap ''ffmpeg failed: '' e))
    \<and> new_events w w' =
        [EvLog (logger s) Info ''Processing file'' [(''name'', in_Name inp)],
         EvData r0, EvReadAll r0, EvData r1,
         EvLog (logger s) Info ''Running ffmpeg'' [(''file'', in_Name inp)],
         EvRun (ffmpeg_Cmd (rd_data (readers w r0))),
         EvClose r1]
    \<and> data_calls w' = Suc (Suc (data_calls w))
    \<and> chans w' = chans w
    \<and> (\<forall>r. rd_closed (readers w' r) =
             (if r = r1 then Suc (rd_closed (readers w r)) else rd_closed (readers w r)))"
  using assms by (simp add: Process_def step_defs)

lemma Process_transcribe_fails:
  assumes "r0 = Data inp (data_calls w)" and "r1 = Data inp (Suc (data_calls w))"
    and "rd_err (readers w r0) = None"
    and "exit_status (os_exec w (ffmpeg_Cmd (rd_data (readers w r0)))) = Inr wav"
    and "whisperClient s (WithTimeout ctx (5 * Minute)) (audio_input inp wav) = Inl e"
    and "w' = snd (Process s ctx inp w)"
  shows "fst (Process s ctx inp w) = Returned (Some (Wrap ''transcription failed: '' e))
    \<and> new_events w w' =
        [EvLog (logger s) Info ''Processing file'' [(''name'', in_Name inp)],
         EvData r0, EvReadAll r0, EvData r1,
         EvLog (logger s) Info ''Running ffmpeg'' [(''file'', in_Name inp)],
         EvRun (ffmpeg_Cmd (rd_data (readers w r0))),
         EvWithTimeout ctx (5 * Minute),
         EvLog (logger s) Info ''Transcribing audio'' [(''file'', in_Name inp)],
         EvTranscribe (WithTimeout ctx (5 * Minute)) (audio_input inp wav),
         EvCancel (WithTimeout ctx (5 * Minute)),
         EvClose r1]
    \<and> data_calls w' = Suc (Suc (data_calls w))
    \<and> chans w' = chans w
    \<and> (\<forall>r. rd_closed (readers w' r) =
             (if r = r1 then Suc (rd_closed (readers w r)) else rd_closed (readers w r)))"
  using assms by (simp add: Process_def step_defs)

lemma Process_publishes:
  assumes "r0 = Data inp (data_calls w)" and "r1 = Data inp (Suc (data_calls w))"
    and "rd_err (readers w r0) = None"
    and "exit_status (os_exec w (ffmpeg_Cmd (rd_data (readers w r0)))) = Inr wav"
    and "whisperClient s (WithTimeout ctx (5 * Minute)) (audio_input inp wav) = Inr text"
    and "chans w (resultsCh s) = Some ch" and "has_room w (resultsCh s)"
    and "out = \<lparr>Name = Output_Name (host_os w) (in_Name inp) (in_OutputType inp), Text = text\<rparr>"
    and "w' = snd (Process s ctx inp w)"
  shows "fst (Process s ctx inp w) = Returned None
    \<and> new_events w w' =
        [EvLog (logger s) Info ''Processing file'' [(''name'', in_Name inp)],
         EvData r0, EvReadAll r0, EvData r1,
         EvLog (logger s) Info ''Running ffmpeg'' [(''file'', in_Name inp)],
         EvRun (ffmpeg_Cmd (rd_data (readers w r0))),
         EvWithTimeout ctx (5 * Minute),
         EvLog (logger s) Info ''Transcribing audio'' [(''file'', in_Name inp)],
         EvTranscribe (WithTimeout ctx (5 * Minute)) (audio_input inp wav),
         EvSend (resultsCh s) out,
         EvLog (logger s) Info ''Processing complete'' [(''file'', in_Name inp)],
         EvCancel (WithTimeout ctx (5 * Minute)),
         EvClose r1]
    \<and> data_calls w' = Suc (Suc (data_calls w))
    \<and> chans w' = (chans w)(resultsCh s \<mapsto> ch\<lparr>ch_buf := ch_buf ch @ [out]\<rparr>)
    \<and> (\<forall>r. rd_closed (readers w' r) =
             (if r = r1 then Suc (rd_closed (readers w r)) else rd_closed (readers w r)))"
  using assms by (simp add: Process_def step_defs)

lemma Process_blocks:
  assumes "r0 = Data inp (data_calls w)" and "r1 = Data inp (Suc (data_calls w))"
    and "rd_err (readers w r0) = None"
    and "exit_status (os_exec w (ffmpeg_Cmd (rd_data (readers w r0)))) = Inr wav"
    and "whisperClient s (WithTimeout ctx (5 * Minute)) (audio_input inp wav) = Inr text"
    and "chan_send (chans w (resultsCh s)) out = SendBlocks"
    and "out = \<lparr>Name = Output_Name (host_os w) (in_Name inp) (in_OutputType inp), Text = text\<rparr>"
    and "w' = snd (Process s ctx inp w)"
  shows "fst (Process s ctx inp w) = Blocked out
    \<and> new_events w w' =
        [EvLog (logger s) Info ''Processing file'' [(''name'', in_Name inp)],
         EvData r0, EvReadAll r0, EvData r1,
         EvLog (logger s) Info ''Running ffmpeg'' [(''file'', in_Name inp)],
         EvRun (ffmpeg_Cmd (rd_data (readers w r0))),
         EvWithTimeout ctx (5 * Minute),
         EvLog (logger s) Info ''Transcribing audio'' [(''file'', in_Name inp)],
         EvTranscribe (WithTimeout ctx (5 * Minute)) (audio_input inp wav)]
    \<and> data_calls w' = Suc (Suc (data_calls w))
    \<and> chans w' = chans w
    \<and> (\<forall>r. rd_closed (readers w' r) = rd_closed (readers w r))"
  using assms by (simp add: Process_def Let_def call_Data_def ReadAll_def emit_def log_Info_def Run_def Close_def
  cancel_def TranscribeAudio_def Process_send_def new_events_def 
  audio_input_def)

lemma Process_panics:
  assumes "r0 = Data inp (data_calls w)" and "r1 = Data inp (Suc (data_calls w))"
    and "rd_err (readers w r0) = None"
    and "exit_status (os_exec w (ffmpeg_Cmd (rd_data (readers w r0)))) = Inr wav"
    and "whisperClient s (WithTimeout ctx (5 * Minute)) (audio_input inp wav) = Inr text"
    and "chan_send (chans w (resultsCh s)) out = SendPanics"
    and "out = \<lparr>Name = Output_Name (host_os w) (in_Name inp) (in_OutputType inp), Text = text\<rparr>"
    and "w' = snd (Process s ctx inp w)"
  shows "fst (Process s ctx inp w) = Panicked ''send on closed channel''
    \<and> new_events w w' =
        [EvLog (logger s) Info ''Processing file'' [(''name'', in_Name inp)],
         EvData r0, EvReadAll r0, EvData r1,
         EvLog (logger s) Info ''Running ffmpeg'' [(''file'', in_Name inp)],
         EvRun (ffmpeg_Cmd (rd_data (readers w r0))),
         EvWithTimeout ctx (5 * Minute),
         EvLog (logger s) Info ''Transcribing audio'' [(''file'', in_Name inp)],
         EvTranscribe (WithTimeout ctx (5 * Minute)) (audio_input inp wav),
         EvCancel (WithTimeout ctx (5 * Minute)),
         EvClose r1]
    \<and> data_calls w' = Suc (Suc (data_calls w))
    \<and> chans w' = chans w
    \<and> (\<forall>r. rd_closed (readers w' r) =
             (if r = r1 then Suc (rd_closed (readers w r)) else rd_closed (readers w r)))"
  using assms by (simp add: Process_def Let_def call_Data_def ReadAll_def emit_def log_Info_def Run_def Close_def
  cancel_def TranscribeAudio_def Process_send_def new_events_def 
  audio_input_def)

lemma Process_send_completes:
  assumes "chans w (resultsCh s) = Some ch" and "has_room w (resultsCh s)"
    and "w' = snd (Process_send s inp c r out w)"
  shows "fst (Process_send s inp c r out w) = Returned None
    \<and> chans w' = (chans w)(resultsCh s \<mapsto> ch\<lparr>ch_buf := ch_buf ch @ [out]\<rparr>)
    \<and> new_events w w' =
        [EvSend (resultsCh s) out,
         EvLog (logger s) Info ''Processing complete'' [(''file'', in_Name inp)],
         EvCancel c, EvClose r]"
  using assms by (simp add: step_defs)

lemma main_with_credential:
  assumes "env ''OPENAI_API_KEY'' = Some k" and "k \<noteq> []"
  shows "main env mk w =
           AppRun (fst (New [] (mk k whisperAIModel) w)) (snd (New [] (mk k whisperAIModel) w))"
  using assms by (simp add: main_def Getenv_def Let_def split: prod.splits)

lemmas demo_defs = app_scriber_def app_world_def good_world_def bad_world_def exit_world_def
  bare_world_def app_ctx_def readable_def unreadable_def exits_with_def not_installed_def
  unset_env_def client_for_def New_def make_chan_def empty_world_def
  good_reader_def bad_reader_def ok_exec_def srt_backend_def file_input_def fresh_input_def
  exit_status_def ffmpeg_Cmd_def Command_def sampleRate_def Minute_def
  Output_Name_def Replace1_def Ext_def IsPathSeparator_def replace_extension_def

section \<open>Claims\<close>

text \<open>
  C1: when transcoding and transcription succeed, \<open>Process\<close> publishes one \<open>Output\<close>
  with the backend's bytes as \<open>Text\<close> and returns nil after that (\<open>Process_publishes\<close>
  above); its \<open>Name\<close> is claimed to be the input name with its extension replaced by a
  dot and the output type. On the name \<open>talk.mp3.old.mp3\<close> the call returns nil and the
  one output it publishes is named \<open>talk.srt.old.mp3\<close>, where replacing the extension
  gives \<open>talk.mp3.old.srt\<close>.
\<close>

theorem published_name_keeps_final_extension:
  "fst (Process app_scriber app_ctx (file_input ''talk.mp3.old.mp3'') good_world) = Returned None
   \<and> map_option ch_buf
         (chans (snd (Process app_scriber app_ctx (file_input ''talk.mp3.old.mp3'') good_world))
            (resultsCh app_scriber))
       = Some [\<lparr>Name = ''talk.srt.old.mp3'', Text = ''1 hello''\<rparr>]
   \<and> replace_extension Unix ''talk.mp3.old.mp3'' ''srt'' = ''talk.mp3.old.srt''"
  by (simp add: Process_def step_defs demo_defs)

text \<open>
  C2: the reader of \<open>Data\<close> is claimed to be closed exactly once on every path. When
  reading the input fails, \<open>Process\<close> returns the wrapped error before the deferred
  \<open>Close\<close> is registered: the only events on the reader are \<open>Data\<close> and \<open>ReadAll\<close>,
  and its \<open>Close\<close> count stays 0.
\<close>

theorem read_failure_leaves_reader_open:
  "fst (Process app_scriber app_ctx (file_input ''talk.mp3'') bad_world)
     = Returned (Some (Wrap ''reading input: '' (ErrMsg ''unexpected EOF'')))
   \<and> filter on_reader
         (new_events bad_world
            (snd (Process app_scriber app_ctx (file_input ''talk.mp3'') bad_world)))
       = [EvData 0, EvReadAll 0]
   \<and> rd_closed (readers (snd (Process app_scriber app_ctx (file_input ''talk.mp3'')
                    bad_world)) 0) = 0"
  by (simp add: Process_def step_defs demo_defs)

text \<open>
  C3: for the name \<open>clip\<close>, without extension, and output type \<open>srt\<close>, the published
  name is claimed to be \<open>clip.srt\<close>. The extension is the empty string, which
  \<open>strings.Replace\<close> finds at offset 0: the published name is \<open>.srtclip\<close>.
\<close>

theorem no_extension_prepends_output_type:
  "map_option ch_buf
         (chans (snd (Process app_scriber app_ctx (file_input ''clip'') good_world))
            (resultsCh app_scriber))
       = Some [\<lparr>Name = ''.srtclip'', Text = ''1 hello''\<rparr>]"
  by (simp add: Process_def step_defs demo_defs)

text \<open>
  C4: when the transcoding step fails, because the process cannot start or because it
  exits with another code than 0, \<open>Process\<close> returns the error wrapped under
  \<open>ffmpeg failed\<close>, the backend is not invoked and nothing is sent on the channel, which
  is left as it was.
\<close>

theorem transcoding_failure_publishes_nothing:
  assumes "rd_err (readers w (Data inp (data_calls w))) = None"
    and "cmd = ffmpeg_Cmd (rd_data (readers w (Data inp (data_calls w))))"
    and "os_exec w cmd = StartFailed e
         \<or> (\<exists>code out. code \<noteq> 0 \<and> e = ExitError code \<and> os_exec w cmd = Exited code out)"
    and "w' = snd (Process s ctx inp w)"
  shows "fst (Process s ctx inp w) = Returned (Some (Wrap ''ffmpeg failed: '' e))
    \<and> filter is_Transcribe (new_events w w') = []
    \<and> filter is_Send (new_events w w') = []
    \<and> chans w' = chans w"
proof -
  from assms(3) have "exit_status (os_exec w cmd) = Inl e"
    by (auto simp: exit_status_def)
  with assms(2) have
    "exit_status (os_exec w (ffmpeg_Cmd (rd_data (readers w (Data inp (data_calls w)))))) = Inl e"
    by simp
  from Process_transcode_fails [OF refl refl assms(1) this assms(4)]
  show ?thesis by simp
qed

theorem transcoding_failure_publishes_nothing_witness:
  "fst (Process app_scriber app_ctx (file_input ''talk.mp3'')
          (exit_world 1))
     = Returned (Some (Wrap ''ffmpeg failed: '' (ExitError 1)))
   \<and> filter is_Transcribe
        (new_events (exit_world 1)
           (snd (Process app_scriber app_ctx (file_input ''talk.mp3'')
                   (exit_world 1)))) = []
   \<and> filter is_Send
        (new_events (exit_world 1)
           (snd (Process app_scriber app_ctx (file_input ''talk.mp3'')
                   (exit_world 1)))) = []
   \<and> chans (snd (Process app_scriber app_ctx (file_input ''talk.mp3'')
                   (exit_world 1)))
       = chans (exit_world 1)
   \<and> fst (Process app_scriber app_ctx (file_input ''talk.mp3'') bare_world)
     = Returned (Some (Wrap ''ffmpeg failed: '' (ErrMsg ''executable file not found'')))"
proof -
  let ?w1 = "exit_world 1"
  let ?w2 = bare_world
  have a1: "rd_err (readers ?w1 (Data (file_input ''talk.mp3'') (data_calls ?w1))) = None"
    by (simp add: demo_defs)
  have a2: "os_exec ?w1 (ffmpeg_Cmd ''media'') = StartFailed (ExitError 1)
         \<or> (\<exists>code out. code \<noteq> 0 \<and> ExitError 1 = ExitError code
              \<and> os_exec ?w1 (ffmpeg_Cmd ''media'') = Exited code out)"
    by (simp add: exit_world_def exits_with_def app_world_def New_def make_chan_def
        empty_world_def)
  have c: "ffmpeg_Cmd ''media'' =
      ffmpeg_Cmd (rd_data (readers ?w1 (Data (file_input ''talk.mp3'') (data_calls ?w1))))"
    by (simp add: demo_defs)
  have b1: "rd_err (readers ?w2 (Data (file_input ''talk.mp3'') (data_calls ?w2))) = None"
    by (simp add: demo_defs)
  have b2: "os_exec ?w2 (ffmpeg_Cmd ''media'') = StartFailed (ErrMsg ''executable file not found'')
         \<or> (\<exists>code out. code \<noteq> 0 \<and> ErrMsg ''executable file not found'' = ExitError code
              \<and> os_exec ?w2 (ffmpeg_Cmd ''media'') = Exited code out)"
    by (simp add: bare_world_def not_installed_def app_world_def New_def make_chan_def
        empty_world_def)
  have d: "ffmpeg_Cmd ''media'' =
      ffmpeg_Cmd (rd_data (readers ?w2 (Data (file_input ''talk.mp3'') (data_calls ?w2))))"
    by (simp add: demo_defs)
  from transcoding_failure_publishes_nothing [OF a1 c a2 refl, of app_scriber app_ctx]
       transcoding_failure_publishes_nothing [OF b1 d b2 refl, of app_scriber app_ctx]
  show ?thesis by simp
qed

text \<open>
  C5: the backend is called with the caller's context under a timeout of 5 minutes
  (300 * 10^9 nanoseconds), made after the subprocess has run; the subprocess is started
  without any context. Of the subprocess run, the making of the sub-context and the
  backend call, a call of \<open>Process\<close> performs none when reading fails, the run alone
  when the run fails, and otherwise the three in this order.
\<close>

theorem timeout_covers_backend_call_only:
  assumes "r0 = Data inp (data_calls w)"
    and "cmd = ffmpeg_Cmd (rd_data (readers w r0))"
    and "ctx' = WithTimeout ctx (5 * Minute)"
  shows "filter on_deadline (new_events w (snd (Process s ctx inp w))) =
           (case rd_err (readers w r0) of
              Some e \<Rightarrow> []
            | None \<Rightarrow>
                (case exit_status (os_exec w cmd) of
                   Inl e \<Rightarrow> [EvRun cmd]
                 | Inr wav \<Rightarrow>
                     [EvRun cmd, EvWithTimeout ctx (5 * Minute),
                      EvTranscribe ctx' (audio_input inp wav)]))
         \<and> cmd_ctx cmd = None
         \<and> 5 * Minute = 300 * 1000000000"
proof -
  have "cmd_ctx cmd = None"
    using assms(2) by (simp add: ffmpeg_Cmd_def Command_def)
  moreover have "5 * Minute = 300 * 1000000000"
    by (simp add: Minute_def)
  moreover have "filter on_deadline (new_events w (snd (Process s ctx inp w))) =
           (case rd_err (readers w r0) of
              Some e \<Rightarrow> []
            | None \<Rightarrow>
                (case exit_status (os_exec w cmd) of
                   Inl e \<Rightarrow> [EvRun cmd]
                 | Inr wav \<Rightarrow>
                     [EvRun cmd, EvWithTimeout ctx (5 * Minute),
                      EvTranscribe ctx' (audio_input inp wav)]))"
    unfolding assms
    by (simp add: Process_def Let_def call_Data_def ReadAll_def emit_def log_Info_def Run_def
        Close_def cancel_def TranscribeAudio_def Process_send_def new_events_def audio_input_def
        split: option.splits sum.splits send_result.splits)
  ultimately show ?thesis by simp
qed

theorem timeout_covers_backend_call_only_witness:
  "filter on_deadline
     (new_events good_world
        (snd (Process app_scriber app_ctx (file_input ''talk.mp3'') good_world)))
     = [EvRun (ffmpeg_Cmd ''media''),
        EvWithTimeout app_ctx 300000000000,
        EvTranscribe (WithTimeout app_ctx 300000000000)
          \<lparr>ta_Name = ''talk.mp3'', ta_Language = ''en'', ta_Format = ''srt'', ta_Data = ''RIFF''\<rparr>]
   \<and> cmd_ctx (ffmpeg_Cmd ''media'') = None"
  using timeout_covers_backend_call_only [OF refl refl refl, where s = app_scriber
      and ctx = app_ctx and inp = "file_input ''talk.mp3''"
      and w = good_world]
  by (simp add: demo_defs audio_input_def)

text \<open>
  C6: \<open>New\<close> makes the channel with capacity 10, empty and open, and touches no other
  channel; \<open>Collect\<close> gives the receive-only view of that channel, which is the one every
  send of \<open>Process\<close> goes to; a call of \<open>Process\<close> neither receives from a channel nor
  closes one: the channel keeps its capacity and its closed flag, what was buffered stays
  at the front of the buffer, and the other channels are untouched.
\<close>

theorem delivery_channel_capacity_and_view:
  assumes "New lg cli w0 = (s, w1)" and "w' = snd (Process s ctx inp w)"
  shows "chans w1 (resultsCh s) = Some \<lparr>ch_cap = 10, ch_buf = [], ch_closed = False\<rparr>
    \<and> (\<forall>a. a \<noteq> resultsCh s \<longrightarrow> chans w1 a = chans w0 a)
    \<and> new_events w0 w1 = []
    \<and> Collect_ch s = RecvOnly (resultsCh s)
    \<and> (\<forall>a v. EvSend a v \<in> set (new_events w w') \<longrightarrow> Collect_ch s = RecvOnly a)
    \<and> filter on_chan_drain (new_events w w') = []
    \<and> (\<forall>a. a \<noteq> resultsCh s \<longrightarrow> chans w' a = chans w a)
    \<and> (case chans w (resultsCh s) of
          None \<Rightarrow> chans w' (resultsCh s) = None
        | Some ch \<Rightarrow>
            (\<exists>ch'. chans w' (resultsCh s) = Some ch' \<and> ch_cap ch' = ch_cap ch
               \<and> ch_closed ch' = ch_closed ch \<and> prefix (ch_buf ch) (ch_buf ch')))"
proof -
  have new: "chans w1 (resultsCh s) = Some \<lparr>ch_cap = 10, ch_buf = [], ch_closed = False\<rparr>
    \<and> (\<forall>a. a \<noteq> resultsCh s \<longrightarrow> chans w1 a = chans w0 a)
    \<and> new_events w0 w1 = []"
    using assms(1) by (auto simp: New_def make_chan_def Let_def new_events_def)
  have col: "Collect_ch s = RecvOnly (resultsCh s)"
    by (simp add: Collect_ch_def)
  have snd: "\<forall>a v. EvSend a v \<in> set (new_events w w') \<longrightarrow> Collect_ch s = RecvOnly a"
    unfolding assms(2)
    by (simp add: Process_def Let_def call_Data_def ReadAll_def emit_def log_Info_def Run_def
        Close_def cancel_def TranscribeAudio_def Process_send_def new_events_def Collect_ch_def
        split: option.splits sum.splits send_result.splits)
  have drain: "filter on_chan_drain (new_events w w') = []"
    unfolding assms(2)
    by (simp add: Process_def Let_def call_Data_def ReadAll_def emit_def log_Info_def Run_def
        Close_def cancel_def TranscribeAudio_def Process_send_def new_events_def
        split: option.splits sum.splits send_result.splits)
  have other: "\<forall>a. a \<noteq> resultsCh s \<longrightarrow> chans w' a = chans w a"
    unfolding assms(2)
    by (simp add: Process_def Let_def call_Data_def ReadAll_def emit_def log_Info_def Run_def
        Close_def cancel_def TranscribeAudio_def Process_send_def
        split: option.splits sum.splits send_result.splits)
  have own: "case chans w (resultsCh s) of
          None \<Rightarrow> chans w' (resultsCh s) = None
        | Some ch \<Rightarrow>
            (\<exists>ch'. chans w' (resultsCh s) = Some ch' \<and> ch_cap ch' = ch_cap ch
               \<and> ch_closed ch' = ch_closed ch \<and> prefix (ch_buf ch) (ch_buf ch'))"
    unfolding assms(2)
    by (auto simp: Process_def Let_def call_Data_def ReadAll_def emit_def log_Info_def Run_def
        Close_def cancel_def TranscribeAudio_def Process_send_def chan_send_def
        split: option.splits sum.splits send_result.splits if_splits)
  from new col snd drain other own show ?thesis by blast
qed

theorem delivery_channel_capacity_and_view_witness:
  "New [] srt_backend (empty_world readable ok_exec)
     = (app_scriber, good_world)
   \<and> chans good_world (resultsCh app_scriber)
       = Some \<lparr>ch_cap = 10, ch_buf = [], ch_closed = False\<rparr>
   \<and> Collect_ch app_scriber = RecvOnly 0
   \<and> chans (snd (Process app_scriber app_ctx (file_input ''talk.mp3'') good_world)) 0
       = Some \<lparr>ch_cap = 10, ch_buf = [\<lparr>Name = ''talk.srt'', Text = ''1 hello''\<rparr>],
               ch_closed = False\<rparr>
   \<and> fst (chan_recv 0 (snd (Process app_scriber app_ctx (file_input ''talk.mp3'') good_world)))
       = Some \<lparr>Name = ''talk.srt'', Text = ''1 hello''\<rparr>"
proof -
  have h: "New [] srt_backend (empty_world readable ok_exec)
     = (app_scriber, good_world)"
    by (simp add: app_scriber_def good_world_def app_world_def)
  have r: "resultsCh app_scriber = 0"
    by (simp add: demo_defs)
  have p: "chans (snd (Process app_scriber app_ctx (file_input ''talk.mp3'') good_world)) 0
       = Some \<lparr>ch_cap = 10, ch_buf = [\<lparr>Name = ''talk.srt'', Text = ''1 hello''\<rparr>],
               ch_closed = False\<rparr>"
    by (simp add: Process_def step_defs demo_defs)
  from delivery_channel_capacity_and_view [OF h refl, where ctx = app_ctx
      and inp = "file_input ''talk.mp3''" and w = good_world]
  have "chans good_world (resultsCh app_scriber)
       = Some \<lparr>ch_cap = 10, ch_buf = [], ch_closed = False\<rparr>
     \<and> Collect_ch app_scriber = RecvOnly (resultsCh app_scriber)"
    by blast
  with h r p show ?thesis
    by (simp add: chan_recv_def)
qed

text \<open>
  C7, as stated: every call of \<open>Process\<close> runs the transcoder exactly once. A call whose
  input cannot be read returns before the command is built, and runs it zero times.
\<close>

theorem read_failure_runs_no_transcoder:
  "length (filter is_Run
     (new_events bad_world
        (snd (Process app_scriber app_ctx (file_input ''talk.mp3'') bad_world)))) \<noteq> 1"
  by (simp add: Process_def step_defs demo_defs)

text \<open>
  C7, amended: every call of \<open>Process\<close> whose input is read without error runs the
  transcoder exactly once, as \<open>ffmpeg -y -i pipe:0 -vn -acodec pcm_s16le -ar 5200 -ac 2
  -b:a 32k -f wav pipe:1\<close>, with the bytes read on its standard input, its standard output
  collected in a buffer and its standard error sent to the host's; when it exits with a
  code other than 0, \<open>Process\<close> returns that failure wrapped under \<open>ffmpeg failed\<close>.
\<close>

theorem transcoder_invoked_once_after_read:
  assumes "r0 = Data inp (data_calls w)"
    and "rd_err (readers w r0) = None"
    and "cmd = \<lparr>Path = ''ffmpeg'',
                Args = [''ffmpeg'', ''-y'', ''-i'', ''pipe:0'', ''-vn'', ''-acodec'', ''pcm_s16le'',
                        ''-ar'', ''5200'', ''-ac'', ''2'', ''-b:a'', ''32k'', ''-f'', ''wav'',
                        ''pipe:1''],
                cmd_ctx = None, Stdin = Some (rd_data (readers w r0)),
                Stdout = ToBuffer, Stderr = OsStderr\<rparr>"
  shows "filter is_Run (new_events w (snd (Process s ctx inp w))) = [EvRun cmd]
    \<and> (\<forall>code out. os_exec w cmd = Exited code out \<and> code \<noteq> 0 \<longrightarrow>
          fst (Process s ctx inp w) = Returned (Some (Wrap ''ffmpeg failed: '' (ExitError code))))"
proof -
  have c: "cmd = ffmpeg_Cmd (rd_data (readers w (Data inp (data_calls w))))"
    using assms(1,3) by (simp add: ffmpeg_Cmd_def Command_def sampleRate_def)
  have "filter is_Run (new_events w (snd (Process s ctx inp w))) = [EvRun cmd]"
    using assms(1,2) unfolding c
    by (simp add: Process_def Let_def call_Data_def ReadAll_def emit_def log_Info_def Run_def
        Close_def cancel_def TranscribeAudio_def Process_send_def new_events_def
        split: option.splits sum.splits send_result.splits)
  moreover have "fst (Process s ctx inp w) = Returned (Some (Wrap ''ffmpeg failed: '' (ExitError code)))"
    if "os_exec w cmd = Exited code out" and "code \<noteq> 0" for code out
  proof -
    from that have "exit_status (os_exec w cmd) = Inl (ExitError code)"
      by (simp add: exit_status_def)
    then have "exit_status (os_exec w (ffmpeg_Cmd (rd_data (readers w (Data inp (data_calls w))))))
        = Inl (ExitError code)"
      using c by simp
    from Process_transcode_fails [OF refl refl _ this refl] assms(1,2)
    show ?thesis by simp
  qed
  ultimately show ?thesis by blast
qed

theorem transcoder_invoked_once_after_read_witness:
  "rd_err (readers (exit_world 2)
            (Data (file_input ''talk.mp3'') (data_calls (exit_world 2))))
     = None
   \<and> filter is_Run
        (new_events (exit_world 2)
           (snd (Process app_scriber app_ctx (file_input ''talk.mp3'')
                   (exit_world 2))))
       = [EvRun \<lparr>Path = ''ffmpeg'',
                Args = [''ffmpeg'', ''-y'', ''-i'', ''pipe:0'', ''-vn'', ''-acodec'', ''pcm_s16le'',
                        ''-ar'', ''5200'', ''-ac'', ''2'', ''-b:a'', ''32k'', ''-f'', ''wav'',
                        ''pipe:1''],
                cmd_ctx = None, Stdin = Some ''media'',
                Stdout = ToBuffer, Stderr = OsStderr\<rparr>]
   \<and> fst (Process app_scriber app_ctx (file_input ''talk.mp3'')
            (exit_world 2))
       = Returned (Some (Wrap ''ffmpeg failed: '' (ExitError 2)))"
proof -
  let ?w = "exit_world 2"
  have h: "rd_err (readers ?w (Data (file_input ''talk.mp3'') (data_calls ?w))) = None"
    by (simp add: demo_defs)
  have d: "rd_data (readers ?w (Data (file_input ''talk.mp3'') (data_calls ?w))) = ''media''"
    by (simp add: demo_defs)
  have e: "os_exec ?w c = Exited 2 []" for c
    by (simp add: demo_defs)
  from transcoder_invoked_once_after_read [OF refl h refl, where s = app_scriber
      and ctx = app_ctx] h d e
  show ?thesis by simp
qed

text \<open>
  C8: when \<open>OPENAI_API_KEY\<close> is not set, \<open>main\<close> logs one error and exits with code 1;
  no scriber is built (no channel is made) and no input is touched, so no call of
  \<open>Process\<close> takes place: the application, which alone calls \<open>Process\<close>, is not started
  (with a key it is, see \<open>main_with_credential\<close>).
\<close>

theorem missing_credential_exits_at_startup:
  assumes "env ''OPENAI_API_KEY'' = None"
  shows "\<exists>code w'. main env mk w = Exit code w' \<and> code = 1 \<and> code \<noteq> 0
           \<and> new_events w w' = [EvLog [] Error ''OPENAI_API_KEY is required'' []]
           \<and> chans w' = chans w \<and> chan_next w' = chan_next w
           \<and> data_calls w' = data_calls w"
  using assms by (simp add: main_def Getenv_def Let_def emit_def new_events_def)

theorem missing_credential_exits_at_startup_witness:
  "unset_env ''OPENAI_API_KEY'' = None
   \<and> main unset_env client_for (empty_world readable ok_exec)
       = Exit 1 ((empty_world readable ok_exec)
                   \<lparr>trace := [EvLog [] Error ''OPENAI_API_KEY is required'' []]\<rparr>)"
proof -
  have h: "unset_env ''OPENAI_API_KEY'' = None" by (simp add: unset_env_def)
  from missing_credential_exits_at_startup [where env = unset_env and mk = client_for
      and w = "empty_world readable ok_exec", OF h]
  obtain code w' where
    "main unset_env client_for (empty_world readable ok_exec)
       = Exit code w'" and "code = 1" by blast
  moreover have "main unset_env client_for (empty_world readable ok_exec)
       = Exit 1 ((empty_world readable ok_exec)
                   \<lparr>trace := [EvLog [] Error ''OPENAI_API_KEY is required'' []]\<rparr>)"
    by (simp add: main_def Getenv_def emit_def empty_world_def unset_env_def)
  ultimately show ?thesis using h by simp
qed

text \<open>
  C9: a call of \<open>Process\<close> that returns nil has invoked \<open>Data\<close> twice; the reader of the
  first invocation, \<open>r0\<close>, is the one read (and left drained), \<open>Close\<close> is called once, on
  the reader of the second invocation, \<open>r1\<close>, and when the two differ the \<open>Close\<close> count
  of \<open>r0\<close> is unchanged. A call whose input cannot be read has invoked \<open>Data\<close> once and
  \<open>Close\<close> on no reader.
\<close>

theorem Data_invoked_twice_Close_on_second:
  assumes "r0 = Data inp (data_calls w)" and "r1 = Data inp (Suc (data_calls w))"
    and "w' = snd (Process s ctx inp w)"
  shows "(fst (Process s ctx inp w) = Returned None \<longrightarrow>
            data_calls w' = data_calls w + 2
          \<and> filter on_reader (new_events w w') = [EvData r0, EvReadAll r0, EvData r1, EvClose r1]
          \<and> rd_data (readers w' r0) = []
          \<and> (r1 \<noteq> r0 \<longrightarrow> rd_closed (readers w' r0) = rd_closed (readers w r0)))
       \<and> (\<forall>e. rd_err (readers w r0) = Some e \<longrightarrow>
            data_calls w' = data_calls w + 1
          \<and> filter on_reader (new_events w w') = [EvData r0, EvReadAll r0]
          \<and> (\<forall>r. rd_closed (readers w' r) = rd_closed (readers w r)))"
proof -
  have ok: "data_calls w' = data_calls w + 2
          \<and> filter on_reader (new_events w w') = [EvData r0, EvReadAll r0, EvData r1, EvClose r1]
          \<and> rd_data (readers w' r0) = []
          \<and> (r1 \<noteq> r0 \<longrightarrow> rd_closed (readers w' r0) = rd_closed (readers w r0))"
    if "fst (Process s ctx inp w) = Returned None"
    using that unfolding assms
    by (simp add: Process_def Let_def call_Data_def ReadAll_def emit_def log_Info_def Run_def
        Close_def cancel_def TranscribeAudio_def Process_send_def new_events_def
        split: option.splits sum.splits send_result.splits)
  have bad: "data_calls w' = data_calls w + 1
          \<and> filter on_reader (new_events w w') = [EvData r0, EvReadAll r0]
          \<and> (\<forall>r. rd_closed (readers w' r) = rd_closed (readers w r))"
    if "rd_err (readers w r0) = Some e" for e
    using Process_read_fails [OF assms(1) that assms(3)] by simp
  from ok bad show ?thesis by blast
qed

theorem Data_invoked_twice_Close_on_second_witness:
  "fst (Process app_scriber app_ctx (fresh_input ''talk.mp3'') good_world) = Returned None
   \<and> filter on_reader
        (new_events good_world
           (snd (Process app_scriber app_ctx (fresh_input ''talk.mp3'') good_world)))
       = [EvData 0, EvReadAll 0, EvData 1, EvClose 1]
   \<and> rd_closed (readers (snd (Process app_scriber app_ctx (fresh_input ''talk.mp3'')
                   good_world)) 0) = 0
   \<and> rd_err (readers bad_world 0) = Some (ErrMsg ''unexpected EOF'')
   \<and> data_calls (snd (Process app_scriber app_ctx (fresh_input ''talk.mp3'') bad_world)) = 1
   \<and> filter on_reader
        (new_events bad_world
           (snd (Process app_scriber app_ctx (fresh_input ''talk.mp3'') bad_world)))
       = [EvData 0, EvReadAll 0]"
proof -
  let ?g = good_world
  let ?b = bad_world
  let ?inp = "fresh_input ''talk.mp3''"
  have nil: "fst (Process app_scriber app_ctx ?inp ?g) = Returned None"
    by (simp add: Process_def step_defs demo_defs)
  have r0: "Data ?inp (data_calls ?g) = 0" "Data ?inp (data_calls ?b) = 0"
    by (simp_all add: demo_defs)
  have r1: "Data ?inp (Suc (data_calls ?g)) = 1"
    by (simp add: demo_defs)
  have c0: "rd_closed (readers ?g 0) = 0" "data_calls ?b = 0"
    by (simp_all add: demo_defs)
  have err: "rd_err (readers ?b 0) = Some (ErrMsg ''unexpected EOF'')"
    by (simp add: demo_defs)
  from Data_invoked_twice_Close_on_second [OF refl refl refl, where s = app_scriber
      and ctx = app_ctx and inp = ?inp and w = ?g]
    Data_invoked_twice_Close_on_second [OF refl refl refl, where s = app_scriber
      and ctx = app_ctx and inp = ?inp and w = ?b]
    nil r0 r1 c0 err
  show ?thesis by simp
qed

text \<open>
  C10: the output name replaces the first instance, anywhere in the name, of the string
  that is the name's extension. When the extension \<open>ext\<close> occurs before the final one
  (\<open>name = p @ ext @ q @ ext\<close>), the name splits at the first instance of \<open>ext\<close>, which
  starts no later than \<open>p\<close> ends, into \<open>pre @ ext @ post\<close>; the output name is \<open>pre\<close>,
  a dot, the output type and \<open>post\<close>, and \<open>post\<close> still ends with \<open>ext\<close>.
\<close>

theorem Output_Name_first_occurrence:
  assumes "Ext os name = ext" and "ext \<noteq> []" and "name = p @ ext @ q @ ext"
  shows "\<exists>pre post. name = pre @ ext @ post \<and> length pre \<le> length p
           \<and> (\<forall>i<length pre. \<not> prefix ext (drop i name))
           \<and> suffix ext post
           \<and> Output_Name os name outputType = pre @ CHR ''.'' # outputType @ post"
proof -
  from Index_occurs [of p ext "q @ ext"] assms(3)
  obtain j where j: "j \<le> length p" "Index name ext = Some j" by auto
  define pre where "pre = take j name"
  define post where "post = drop (j + length ext) name"
  from j(2) have "prefix ext (drop j name)" by (rule Index_Some_prefix)
  then obtain t where t: "drop j name = ext @ t" by (auto simp: prefix_def)
  then have post_t: "post = t"
    unfolding post_def by (metis add.commute append_eq_conv_conj drop_drop)
  have split: "name = pre @ ext @ post"
    unfolding pre_def post_t using t by (metis append_take_drop_id)
  have len: "length pre = j"
    unfolding pre_def using j(1) assms(3) by simp
  have "post = drop (j + length ext) ((p @ ext) @ (q @ ext))"
    unfolding post_def using assms(3) by simp
  also have "\<dots> = drop (j + length ext) (p @ ext) @ (q @ ext)"
    using j(1) by simp
  finally have "suffix ext post"
    by (simp add: suffix_def)
  moreover have "\<forall>i<length pre. \<not> prefix ext (drop i name)"
    using Index_Some_first [OF j(2)] len by simp
  moreover have "Output_Name os name outputType = pre @ CHR ''.'' # outputType @ post"
    unfolding Output_Name_def assms(1) pre_def post_def
    using Replace1_first [OF j(2)] by simp
  ultimately show ?thesis using split len j(1) by blast
qed

theorem Output_Name_first_occurrence_witness:
  "Ext Unix ''a.mp4.backup.mp4'' = ''.mp4'' \<and> ''.mp4'' \<noteq> []
   \<and> ''a.mp4.backup.mp4'' = ''a'' @ ''.mp4'' @ ''.backup'' @ ''.mp4''
   \<and> (\<exists>pre post. ''a.mp4.backup.mp4'' = pre @ ''.mp4'' @ post \<and> length pre \<le> length ''a''
           \<and> (\<forall>i<length pre. \<not> prefix ''.mp4'' (drop i ''a.mp4.backup.mp4''))
           \<and> suffix ''.mp4'' post
           \<and> Output_Name Unix ''a.mp4.backup.mp4'' ''srt'' = pre @ CHR ''.'' # ''srt'' @ post)
   \<and> Output_Name Unix ''a.mp4.backup.mp4'' ''srt'' = ''a.srt.backup.mp4''"
proof -
  have h1: "Ext Unix ''a.mp4.backup.mp4'' = ''.mp4''"
    by (simp add: Ext_def IsPathSeparator_def)
  have h2: "''.mp4'' \<noteq> []" by simp
  have h3: "''a.mp4.backup.mp4'' = ''a'' @ ''.mp4'' @ ''.backup'' @ ''.mp4''" by simp
  have h4: "Output_Name Unix ''a.mp4.backup.mp4'' ''srt'' = ''a.srt.backup.mp4''"
    by (simp add: Output_Name_def Replace1_def Ext_def IsPathSeparator_def)
  from Output_Name_first_occurrence [OF h1 h2 h3, of "''srt''"] h1 h2 h3 h4
  show ?thesis by blast
qed

end
